theory Spec2Isabelle
  imports Main
begin

section \<open>Errors and JSON values\<close>

text \<open>
  Every handler either returns a value or raises. A raised \<open>HTTPException\<close> carries the
  status code and the \<open>detail\<close> string that the framework puts into the response body; any
  other exception that leaves a handler is answered by the framework with status 500 and
  is recorded here by the name of its class.
\<close>

datatype error = HTTPException nat string | Unhandled string

fun status_of :: "error \<Rightarrow> nat" where
  "status_of (HTTPException code detail) = code"
| "status_of (Unhandled exc) = 500"

fun detail_of :: "error \<Rightarrow> string" where
  "detail_of (HTTPException code detail) = detail"
| "detail_of (Unhandled exc) = ''Internal Server Error''"

text \<open>
  The values a decoded JSON document can hold. Floating point numbers are left out:
  no token issued by the service carries one.
\<close>

datatype json = JNull | JBool bool | JInt int | JStr string
  | JList "json list" | JObj "(string \<times> json) list"

text \<open>A Python \<open>dict\<close> with string keys, in insertion order; \<open>dict_get\<close> is \<open>dict.get\<close>.\<close>

type_synonym payload = "(string \<times> json) list"

definition dict_get :: "payload \<Rightarrow> string \<Rightarrow> json" where
  "dict_get p k = (case map_of p k of None \<Rightarrow> JNull | Some v \<Rightarrow> v)"

text \<open>\<open>dict.update\<close> with one key: the value is replaced in place, or the pair is added last.\<close>

fun dict_update :: "string \<Rightarrow> json \<Rightarrow> payload \<Rightarrow> payload" where
  "dict_update k v [] = [(k, v)]"
| "dict_update k v ((k', v') # ps) =
     (if k' = k then (k, v) # ps else (k', v') # dict_update k v ps)"

section \<open>book-service: the trust adapter\<close>

text \<open>
  The outcome of one \<open>httpx\<close> call: a response with its status code and its body parsed as
  JSON (\<open>None\<close> when the body is not JSON), or an \<open>httpx.RequestError\<close>.
\<close>

datatype http_outcome = Response nat "json option" | RequestError

text \<open>
  \<open>get_current_user\<close> of \<open>book-service/routers/books.py\<close>. The parameter \<open>http_get\<close> is the
  remote \<open>GET /users/validate\<close>, given the value of the \<open>Authorization\<close> header.
\<close>

definition get_current_user :: "(string \<Rightarrow> http_outcome) \<Rightarrow> string \<Rightarrow> error + json" where
  "get_current_user http_get token =
     (if token = [] then Inl (HTTPException 401 ''Missing token'')
      else (case http_get (''Bearer '' @ token) of
              RequestError \<Rightarrow> Inl (HTTPException 503 ''Auth service unavailable'')
            | Response code body \<Rightarrow>
                if code \<noteq> 200 then Inl (HTTPException 401 ''Invalid token'')
                else (case body of
                        None \<Rightarrow> Inl (Unhandled ''JSONDecodeError'')
                      | Some v \<Rightarrow> Inr v)))"

text \<open>
  A protected endpoint declares \<open>user=Depends(get_current_user)\<close>: the framework runs the
  dependency first and calls the handler with its result only when it returned.
\<close>

definition protected :: "(string \<Rightarrow> http_outcome) \<Rightarrow> string \<Rightarrow> (json \<Rightarrow> error + 'a) \<Rightarrow> error + 'a" where
  "protected http_get token handler =
     (case get_current_user http_get token of
        Inl e \<Rightarrow> Inl e
      | Inr user \<Rightarrow> handler user)"

section \<open>auth-service: Python's \<open>int()\<close> on a decoded claim\<close>

text \<open>
  \<open>int(x)\<close> for a value of a decoded token: an integer is itself, a boolean is 0 or 1, a
  string is parsed in base ten (surrounding whitespace stripped, an optional sign, digits
  with single underscores between them) or raises \<open>ValueError\<close>, and \<open>None\<close>, a list or a
  dict raise \<open>TypeError\<close>. Characters are bytes here, so the non-ASCII digits and spaces
  that Python also accepts are outside the model.
\<close>

definition is_py_space :: "char \<Rightarrow> bool" where
  "is_py_space c = ((of_char c :: nat) \<in> set [9, 10, 11, 12, 13, 28, 29, 30, 31, 32])"

definition digit_of :: "char \<Rightarrow> nat option" where
  "digit_of c = (let n = (of_char c :: nat) in if 48 \<le> n \<and> n \<le> 57 then Some (n - 48) else None)"

fun py_digits :: "string \<Rightarrow> nat \<Rightarrow> nat option" where
  "py_digits [] acc = Some acc"
| "py_digits [c] acc =
     (case digit_of c of None \<Rightarrow> None | Some v \<Rightarrow> Some (10 * acc + v))"
| "py_digits (c # d # ds) acc =
     (if c = CHR ''_'' then
        (case digit_of d of None \<Rightarrow> None | Some v \<Rightarrow> py_digits ds (10 * acc + v))
      else
        (case digit_of c of None \<Rightarrow> None | Some v \<Rightarrow> py_digits (d # ds) (10 * acc + v)))"

definition py_int_str :: "string \<Rightarrow> int option" where
  "py_int_str s =
     (let t = dropWhile is_py_space (rev (dropWhile is_py_space (rev s)));
          neg = (case t of [] \<Rightarrow> False | c # cs \<Rightarrow> c = CHR ''-'');
          body = (case t of [] \<Rightarrow> [] | c # cs \<Rightarrow> if c = CHR ''-'' \<or> c = CHR ''+'' then cs else t)
      in case body of
           [] \<Rightarrow> None
         | d # ds \<Rightarrow>
             (case digit_of d of
                None \<Rightarrow> None
              | Some v \<Rightarrow> map_option (\<lambda>n. if neg then - int n else int n) (py_digits ds v)))"

fun py_int :: "json \<Rightarrow> error + int" where
  "py_int (JInt n) = Inr n"
| "py_int (JBool b) = Inr (if b then 1 else 0)"
| "py_int (JStr s) =
     (case py_int_str s of None \<Rightarrow> Inl (Unhandled ''ValueError'') | Some n \<Rightarrow> Inr n)"
| "py_int JNull = Inl (Unhandled ''TypeError'')"
| "py_int (JList xs) = Inl (Unhandled ''TypeError'')"
| "py_int (JObj kvs) = Inl (Unhandled ''TypeError'')"

section \<open>auth-service: data model\<close>

text \<open>
  The rows of \<open>models.py\<close>. Timestamps are integers counting seconds; a nullable column is
  an \<open>option\<close>. The primary keys are \<open>id_U\<close> and \<open>id_RT\<close> (\<open>id\<close> in the source).
\<close>

record User =
  id_U :: int
  name :: string
  email :: string
  password :: string
  role :: "string option"
  reset_code_hash :: "string option"
  reset_code_expires_at :: "int option"

record RefreshToken =
  id_RT :: int
  user_id :: int
  token_hash :: string
  expires_at :: int
  revoked :: bool
  created_at :: int

record db =
  users :: "User list"
  refresh_tokens :: "RefreshToken list"

definition empty_db :: db where
  "empty_db = \<lparr>users = [], refresh_tokens = []\<rparr>"

text \<open>The key the database gives to a new row of an autoincrementing table.\<close>

definition next_id :: "int list \<Rightarrow> int" where
  "next_id ids = (if ids = [] then 1 else Max (set ids) + 1)"

text \<open>
  The libraries the service calls, as parameters: \<open>hashlib.sha256(..).hexdigest()\<close>, the
  \<open>passlib\<close> context (\<open>hash\<close> draws a random salt, which is an argument here) and
  \<open>jose.jwt\<close> (\<open>decode\<close> reads the clock; \<open>None\<close> stands for a raised \<open>JWTError\<close>).
\<close>

record libs =
  sha256_hexdigest :: "string \<Rightarrow> string"
  pwd_hash :: "string \<Rightarrow> string \<Rightarrow> string"
  pwd_verify :: "string \<Rightarrow> string \<Rightarrow> bool"
  jwt_encode :: "payload \<Rightarrow> string \<Rightarrow> string"
  jwt_decode :: "string \<Rightarrow> string \<Rightarrow> int \<Rightarrow> payload option"

record settings =
  SECRET_KEY :: string
  ACCESS_TOKEN_EXPIRE_MINUTES :: int
  REFRESH_TOKEN_EXPIRE_DAYS :: int
  RESEND_API_KEY :: "string option"
  RESEND_FROM :: "string option"

section \<open>auth-service: \<open>auth.py\<close>\<close>

definition hash_password :: "libs \<Rightarrow> string \<Rightarrow> string \<Rightarrow> string" where
  "hash_password L pw salt = pwd_hash L pw salt"

definition verify_password :: "libs \<Rightarrow> string \<Rightarrow> string \<Rightarrow> bool" where
  "verify_password L pw h = pwd_verify L pw h"

text \<open>\<open>_create_token\<close>: the claims with \<open>exp\<close> set to the clock plus the time to live.\<close>

definition create_token :: "libs \<Rightarrow> settings \<Rightarrow> payload \<Rightarrow> int \<Rightarrow> int \<Rightarrow> string" where
  "create_token L S data expires_delta now =
     jwt_encode L (dict_update ''exp'' (JInt (now + expires_delta)) data) (SECRET_KEY S)"

definition access_claims :: "int \<Rightarrow> string \<Rightarrow> payload" where
  "access_claims uid r = [(''id'', JInt uid), (''role'', JStr r), (''type'', JStr ''access'')]"

definition refresh_claims :: "int \<Rightarrow> string \<Rightarrow> payload" where
  "refresh_claims uid r = [(''id'', JInt uid), (''role'', JStr r), (''type'', JStr ''refresh'')]"

definition create_access_token :: "libs \<Rightarrow> settings \<Rightarrow> int \<Rightarrow> string \<Rightarrow> int \<Rightarrow> string" where
  "create_access_token L S uid r now =
     create_token L S (access_claims uid r) (60 * ACCESS_TOKEN_EXPIRE_MINUTES S) now"

definition create_refresh_token :: "libs \<Rightarrow> settings \<Rightarrow> int \<Rightarrow> string \<Rightarrow> int \<Rightarrow> string" where
  "create_refresh_token L S uid r now =
     create_token L S (refresh_claims uid r) (86400 * REFRESH_TOKEN_EXPIRE_DAYS S) now"

definition decode_token :: "libs \<Rightarrow> settings \<Rightarrow> string \<Rightarrow> int \<Rightarrow> error + payload" where
  "decode_token L S tok now =
     (case jwt_decode L tok (SECRET_KEY S) now of
        None \<Rightarrow> Inl (HTTPException 401 ''Invalid or expired token'')
      | Some p \<Rightarrow> Inr p)"

definition hash_token :: "libs \<Rightarrow> string \<Rightarrow> string" where
  "hash_token L tok = sha256_hexdigest L tok"

text \<open>
  \<open>get_current_user_id\<close>, the sibling of the validate endpoint in \<open>auth.py\<close>: it catches
  what \<open>int()\<close> raises.
\<close>

definition get_current_user_id :: "libs \<Rightarrow> settings \<Rightarrow> string \<Rightarrow> int \<Rightarrow> error + int" where
  "get_current_user_id L S tok now =
     (case decode_token L S tok now of
        Inl e \<Rightarrow> Inl e
      | Inr p \<Rightarrow>
          if dict_get p ''type'' \<noteq> JStr ''access'' then
            Inl (HTTPException 401 ''Invalid token type'')
          else if dict_get p ''id'' = JNull then
            Inl (HTTPException 401 ''Token missing user id'')
          else (case py_int (dict_get p ''id'') of
                  Inl e \<Rightarrow> Inl (HTTPException 401 ''Invalid user id in token'')
                | Inr n \<Rightarrow> Inr n))"

section \<open>auth-service: \<open>routers/users.py\<close>\<close>

text \<open>
  Every handler takes the database and the reading of the clock and returns its answer
  together with the database it leaves behind. The login and refresh endpoints read the
  clock several times while they answer one request; each reading is a field of \<open>clock\<close>.
  The register endpoint returns the new row; the response model then drops the password
  and the reset fields. \<open>first()\<close> is \<open>find\<close>; an attribute
  assignment followed by \<open>commit\<close> rewrites the row with the loaded object's primary key.
  The column \<open>token_hash\<close> is declared \<open>unique\<close>: a commit that would store a second row with
  the same hash raises \<open>IntegrityError\<close>, and nothing of the transaction is kept.
\<close>

text \<open>
  The readings of \<open>datetime.utcnow()\<close> during one login or refresh, in the order they are
  taken: for the expiry check of the refresh endpoint, inside \<open>_create_token\<close> for the
  access token and again for the refresh token, for the expiry of the new ledger record,
  and for the column default \<open>created_at\<close> when the record is inserted. \<open>at t\<close> is a request
  answered while the clock shows \<open>t\<close> throughout.
\<close>

record clock =
  check_at :: int
  access_at :: int
  refresh_at :: int
  expiry_at :: int
  insert_at :: int

definition at :: "int \<Rightarrow> clock" where
  "at t = \<lparr>check_at = t, access_at = t, refresh_at = t, expiry_at = t, insert_at = t\<rparr>"

definition role_or_user :: "User \<Rightarrow> string" where
  "role_or_user u = (case role u of None \<Rightarrow> ''user'' | Some r \<Rightarrow> if r = [] then ''user'' else r)"

definition add_refresh_token :: "db \<Rightarrow> int \<Rightarrow> string \<Rightarrow> int \<Rightarrow> int \<Rightarrow> RefreshToken list \<Rightarrow> db option" where
  "add_refresh_token d uid h expiry now rows =
     (if h \<in> set (map token_hash rows) then None
      else Some (d\<lparr>refresh_tokens := rows @
             [\<lparr>id_RT = next_id (map id_RT rows), user_id = uid, token_hash = h,
               expires_at = expiry, revoked = False, created_at = now\<rparr>]\<rparr>))"

text \<open>
  \<open>_send_email\<close>. The parameter \<open>http_post\<close> is the call to the mail provider, given the
  key, the sender, the recipient, the subject and the text.
\<close>

type_synonym mailer = "string \<Rightarrow> string \<Rightarrow> string \<Rightarrow> string \<Rightarrow> string \<Rightarrow> http_outcome"

definition send_email :: "settings \<Rightarrow> mailer \<Rightarrow> string \<Rightarrow> string \<Rightarrow> string \<Rightarrow> error + unit" where
  "send_email S http_post to_email subject body =
     (case (RESEND_API_KEY S, RESEND_FROM S) of
        (Some resend_api_key, Some resend_from) \<Rightarrow>
          if resend_api_key = [] \<or> resend_from = [] then Inr ()
          else (case http_post resend_api_key resend_from to_email subject body of
                  RequestError \<Rightarrow> Inl (HTTPException 502 ''Email service communication error'')
                | Response code b \<Rightarrow>
                    if code \<notin> set [200, 201] then
                      Inl (HTTPException 502 ''Failed to send email.'')
                    else Inr ())
      | _ \<Rightarrow> Inr ())"

definition register :: "libs \<Rightarrow> db \<Rightarrow> string \<Rightarrow> string \<Rightarrow> string \<Rightarrow> string \<Rightarrow> (error + User) \<times> db" where
  "register L d nm em pw salt =
     (case find (\<lambda>u. email u = em) (users d) of
        Some existing_user \<Rightarrow> (Inl (HTTPException 409 ''Email already registered''), d)
      | None \<Rightarrow>
          (let new_user = \<lparr>id_U = next_id (map id_U (users d)), name = nm, email = em,
                            password = hash_password L pw salt, role = Some ''user'',
                            reset_code_hash = None, reset_code_expires_at = None\<rparr>
           in (Inr new_user, d\<lparr>users := users d @ [new_user]\<rparr>)))"

definition login :: "libs \<Rightarrow> settings \<Rightarrow> db \<Rightarrow> string \<Rightarrow> string \<Rightarrow> clock \<Rightarrow> (error + string \<times> string) \<times> db" where
  "login L S d em pw clk =
     (case find (\<lambda>u. email u = em) (users d) of
        None \<Rightarrow> (Inl (HTTPException 400 ''User not found''), d)
      | Some db_user \<Rightarrow>
          if \<not> verify_password L pw (password db_user) then
            (Inl (HTTPException 400 ''Wrong password''), d)
          else
            (let r = role_or_user db_user;
                 access_token = create_access_token L S (id_U db_user) r (access_at clk);
                 refresh = create_refresh_token L S (id_U db_user) r (refresh_at clk);
                 refresh_hash = hash_token L refresh;
                 refresh_expiry = expiry_at clk + 86400 * REFRESH_TOKEN_EXPIRE_DAYS S
             in case add_refresh_token d (id_U db_user) refresh_hash refresh_expiry
                       (insert_at clk) (refresh_tokens d) of
                  None \<Rightarrow> (Inl (Unhandled ''IntegrityError''), d)
                | Some d' \<Rightarrow> (Inr (access_token, refresh), d')))"

definition revoke :: "RefreshToken \<Rightarrow> RefreshToken \<Rightarrow> RefreshToken" where
  "revoke db_token row = (if id_RT row = id_RT db_token then row\<lparr>revoked := True\<rparr> else row)"

definition refresh_token :: "libs \<Rightarrow> settings \<Rightarrow> db \<Rightarrow> string \<Rightarrow> clock \<Rightarrow> (error + string \<times> string) \<times> db" where
  "refresh_token L S d tok clk =
     (case find (\<lambda>t. token_hash t = hash_token L tok) (refresh_tokens d) of
        None \<Rightarrow> (Inl (HTTPException 401 ''Invalid refresh token''), d)
      | Some db_token \<Rightarrow>
          if revoked db_token \<or> expires_at db_token < check_at clk then
            (Inl (HTTPException 401 ''Invalid refresh token''), d)
          else
            (case find (\<lambda>u. id_U u = user_id db_token) (users d) of
               None \<Rightarrow> (Inl (HTTPException 401 ''User not found''), d)
             | Some db_user \<Rightarrow>
                 (let r = role_or_user db_user;
                      new_access = create_access_token L S (id_U db_user) r (access_at clk);
                      new_refresh = create_refresh_token L S (id_U db_user) r (refresh_at clk);
                      new_refresh_hash = hash_token L new_refresh;
                      new_refresh_expiry = expiry_at clk + 86400 * REFRESH_TOKEN_EXPIRE_DAYS S
                  in case add_refresh_token d (id_U db_user) new_refresh_hash new_refresh_expiry
                            (insert_at clk) (map (revoke db_token) (refresh_tokens d)) of
                       None \<Rightarrow> (Inl (Unhandled ''IntegrityError''), d)
                     | Some d' \<Rightarrow> (Inr (new_access, new_refresh), d'))))"

definition validate_token :: "libs \<Rightarrow> settings \<Rightarrow> string \<Rightarrow> int \<Rightarrow> error + int \<times> json" where
  "validate_token L S tok now =
     (case decode_token L S tok now of
        Inl e \<Rightarrow> Inl e
      | Inr p \<Rightarrow>
          if dict_get p ''type'' \<noteq> JStr ''access'' then
            Inl (HTTPException 401 ''Invalid token type'')
          else if dict_get p ''id'' = JNull then
            Inl (HTTPException 401 ''Token missing user id'')
          else (case py_int (dict_get p ''id'') of
                  Inl e \<Rightarrow> Inl e
                | Inr n \<Rightarrow> Inr (n, dict_get p ''role'')))"

text \<open>\<open>f"{n:06d}"\<close>: the decimal digits of \<open>n\<close>, padded with zeros on the left to six.\<close>

fun digits_of :: "nat \<Rightarrow> string" where
  "digits_of n =
     (if n < 10 then [''0123456789'' ! n] else digits_of (n div 10) @ [''0123456789'' ! (n mod 10)])"

declare digits_of.simps [simp del]

definition format_06d :: "nat \<Rightarrow> string" where
  "format_06d n = (let ds = digits_of n in replicate (6 - length ds) CHR ''0'' @ ds)"

definition set_reset_code :: "User \<Rightarrow> string option \<Rightarrow> int option \<Rightarrow> User \<Rightarrow> User" where
  "set_reset_code db_user h e row =
     (if id_U row = id_U db_user then row\<lparr>reset_code_hash := h, reset_code_expires_at := e\<rparr>
      else row)"

text \<open>
  \<open>forgot_password\<close>; \<open>rnd\<close> is what \<open>secrets.randbelow(1000000)\<close> returned. The commit comes
  before the mail is sent.
\<close>

definition forgot_password :: "libs \<Rightarrow> settings \<Rightarrow> mailer \<Rightarrow> db \<Rightarrow> string \<Rightarrow> nat \<Rightarrow> int \<Rightarrow> (error + string) \<times> db" where
  "forgot_password L S http_post d em rnd now =
     (case find (\<lambda>u. email u = em) (users d) of
        None \<Rightarrow> (Inl (HTTPException 404 ''Email not registered''), d)
      | Some db_user \<Rightarrow>
          (let otp = format_06d rnd;
               otp_hash = hash_token L otp;
               d' = d\<lparr>users := map (set_reset_code db_user (Some otp_hash) (Some (now + 60 * 15)))
                                  (users d)\<rparr>
           in case send_email S http_post em ''Your password reset code''
                     (''Your OTP code is '' @ otp @ ''. It expires in 15 minutes.'') of
                Inl e \<Rightarrow> (Inl e, d')
              | Inr u \<Rightarrow> (Inr ''OTP has been sent.'', d')))"

definition set_password :: "User \<Rightarrow> string \<Rightarrow> User \<Rightarrow> User" where
  "set_password db_user h row =
     (if id_U row = id_U db_user then
        row\<lparr>password := h, reset_code_hash := None, reset_code_expires_at := None\<rparr>
      else row)"

definition reset_password :: "libs \<Rightarrow> db \<Rightarrow> string \<Rightarrow> string \<Rightarrow> string \<Rightarrow> string \<Rightarrow> int \<Rightarrow> (error + string) \<times> db" where
  "reset_password L d em otp new_password salt now =
     (case find (\<lambda>u. email u = em) (users d) of
        None \<Rightarrow> (Inl (HTTPException 400 ''Invalid email or OTP''), d)
      | Some db_user \<Rightarrow>
          (case (reset_code_hash db_user, reset_code_expires_at db_user) of
             (Some code_hash, Some expires) \<Rightarrow>
               if code_hash = [] then
                 (Inl (HTTPException 400 ''OTP not requested''), d)
               else if expires < now then
                 (Inl (HTTPException 400 ''OTP expired''), d)
               else if hash_token L otp \<noteq> code_hash then
                 (Inl (HTTPException 400 ''Invalid OTP''), d)
               else
                 (Inr ''Password updated'',
                  d\<lparr>users := map (set_password db_user (hash_password L new_password salt))
                                  (users d)\<rparr>)
           | _ \<Rightarrow> (Inl (HTTPException 400 ''OTP not requested''), d)))"

section \<open>auth-service: sequences of requests\<close>

text \<open>
  The requests the service answers, each with the random values it draws (the salt of a
  password hash, the number behind a reset code) and the readings of the clock it takes.
  \<open>handle\<close> is the database after one request, \<open>run\<close> the database after a list of them.
  The validate endpoint does not touch the database.
\<close>

datatype request =
    Register string string string string
  | Login string string clock
  | Refresh string clock
  | Validate string int
  | ForgotPassword string nat int
  | ResetPassword string string string string int

fun handle :: "libs \<Rightarrow> settings \<Rightarrow> mailer \<Rightarrow> db \<Rightarrow> request \<Rightarrow> db" where
  "handle L S http_post d (Register nm em pw salt) = snd (register L d nm em pw salt)"
| "handle L S http_post d (Login em pw clk) = snd (login L S d em pw clk)"
| "handle L S http_post d (Refresh tok clk) = snd (refresh_token L S d tok clk)"
| "handle L S http_post d (Validate tok now) = d"
| "handle L S http_post d (ForgotPassword em rnd now) =
     snd (forgot_password L S http_post d em rnd now)"
| "handle L S http_post d (ResetPassword em otp new_password salt now) =
     snd (reset_password L d em otp new_password salt now)"

definition run :: "libs \<Rightarrow> settings \<Rightarrow> mailer \<Rightarrow> db \<Rightarrow> request list \<Rightarrow> db" where
  "run L S http_post d reqs = foldl (handle L S http_post) d reqs"

text \<open>
  A presented string is spent in a database when the record that the refresh endpoint would
  load for it (the first one carrying its digest) is revoked.
\<close>

definition spent :: "libs \<Rightarrow> string \<Rightarrow> db \<Rightarrow> bool" where
  "spent L tok d =
     (case find (\<lambda>t. token_hash t = hash_token L tok) (refresh_tokens d) of
        None \<Rightarrow> False
      | Some t \<Rightarrow> revoked t)"

section \<open>A small instance of the libraries\<close>

text \<open>
  A concrete, executable instance of the library parameters, used to run the handlers on
  concrete requests: a digest that tags its input, a password hash that stores the salt
  before the password, and a token format that writes the key and then each claim as
  \<open>.name=value\<close>, an integer as \<open>i\<close> and its digits and a string as \<open>s\<close> and its text. Decoding
  refuses a token written under another key and one whose \<open>exp\<close> lies before the clock.
\<close>

fun split_on :: "char \<Rightarrow> string \<Rightarrow> string list" where
  "split_on c [] = [[]]"
| "split_on c (x # xs) =
     (if x = c then [] # split_on c xs
      else (case split_on c xs of [] \<Rightarrow> [[x]] | w # ws \<Rightarrow> (x # w) # ws))"

definition show_int :: "int \<Rightarrow> string" where
  "show_int n = (if n < 0 then CHR ''-'' # digits_of (nat (- n)) else digits_of (nat n))"

definition toy_show :: "json \<Rightarrow> string" where
  "toy_show v =
     (case v of
        JInt n \<Rightarrow> CHR ''i'' # show_int n
      | JStr t \<Rightarrow> CHR ''s'' # t
      | _ \<Rightarrow> ''n'')"

definition toy_read :: "string \<Rightarrow> json" where
  "toy_read w =
     (case w of
        [] \<Rightarrow> JNull
      | c # cs \<Rightarrow>
          if c = CHR ''i'' then (case py_int_str cs of None \<Rightarrow> JNull | Some n \<Rightarrow> JInt n)
          else if c = CHR ''s'' then JStr cs
          else JNull)"

definition toy_jwt_encode :: "payload \<Rightarrow> string \<Rightarrow> string" where
  "toy_jwt_encode p key = key @ concat (map (\<lambda>(k, v). CHR ''.'' # k @ CHR ''='' # toy_show v) p)"

definition toy_field :: "string \<Rightarrow> string \<times> json" where
  "toy_field w =
     (takeWhile (\<lambda>c. c \<noteq> CHR ''='') w, toy_read (drop 1 (dropWhile (\<lambda>c. c \<noteq> CHR ''='') w)))"

definition toy_jwt_decode :: "string \<Rightarrow> string \<Rightarrow> int \<Rightarrow> payload option" where
  "toy_jwt_decode tok key now =
     (case split_on CHR ''.'' tok of
        [] \<Rightarrow> None
      | k # ws \<Rightarrow>
          if k \<noteq> key then None
          else (let p = map toy_field ws
                in case map_of p ''exp'' of
                     Some (JInt e) \<Rightarrow> if e < now then None else Some p
                   | _ \<Rightarrow> Some p))"

definition toy_libs :: libs where
  "toy_libs =
     \<lparr>sha256_hexdigest = (\<lambda>t. ''sha:'' @ t),
      pwd_hash = (\<lambda>pw salt. salt @ CHR ''$'' # pw),
      pwd_verify = (\<lambda>pw h. drop 1 (dropWhile (\<lambda>c. c \<noteq> CHR ''$'') h) = pw),
      jwt_encode = toy_jwt_encode,
      jwt_decode = toy_jwt_decode\<rparr>"

definition toy_settings :: settings where
  "toy_settings =
     \<lparr>SECRET_KEY = ''k'', ACCESS_TOKEN_EXPIRE_MINUTES = 30, REFRESH_TOKEN_EXPIRE_DAYS = 7,
      RESEND_API_KEY = None, RESEND_FROM = None\<rparr>"

text \<open>
  Databases reached by a few requests under this instance: Ann has registered; Ann has
  logged in at time 1000; Ann has asked for a reset code at time 1000 (the code drawn is
  123). \<open>mail_settings\<close> configure the mail provider and \<open>dead_mailer\<close> is a provider that
  cannot be reached. \<open>straddling\<close> are the readings of a login during which the clock moves
  from 1000 to 1001 after the tokens are made and before the expiry of the ledger record
  is computed.
\<close>

definition db_ann :: db where
  "db_ann = snd (register toy_libs empty_db ''Ann'' ''a@x.com'' ''secret1'' ''salt'')"

definition db_ann_login :: db where
  "db_ann_login = snd (login toy_libs toy_settings db_ann ''a@x.com'' ''secret1'' (at 1000))"

definition dead_mailer :: mailer where
  "dead_mailer api_key sender to_email subject body = RequestError"

definition mail_settings :: settings where
  "mail_settings = toy_settings\<lparr>RESEND_API_KEY := Some ''re_key'', RESEND_FROM := Some ''noreply@x.com''\<rparr>"

definition db_ann_code :: db where
  "db_ann_code = snd (forgot_password toy_libs toy_settings dead_mailer db_ann ''a@x.com'' 123 1000)"


section \<open>Properties of the trust adapter\<close>

text \<open>
  Claim C9. Whatever the handler of a protected book-service endpoint is, a non-200 answer
  of the remote validate call makes the request fail with status 401, and a network-level
  failure of that call makes it fail with status 503; the handler is not run in either
  case, so the request is never served as some default identity. (The remote call is made
  only for a non-empty bearer token; an empty one is refused with 401 before any call.)
\<close>

theorem get_current_user_fails_closed:
  "(http_get (''Bearer '' @ token) = Response code body \<and> code \<noteq> 200 \<longrightarrow>
      (\<exists>d. protected http_get token handler = Inl (HTTPException 401 d)))
   \<and> (token \<noteq> [] \<and> http_get (''Bearer '' @ token) = RequestError \<longrightarrow>
      protected http_get token handler = Inl (HTTPException 503 ''Auth service unavailable''))"
  by (simp add: protected_def get_current_user_def)

theorem get_current_user_fails_closed_witness:
  "(\<exists>d. protected (\<lambda>h. Response 403 None) ''tok'' (\<lambda>u. Inr ''admin'') = Inl (HTTPException 401 d))
   \<and> protected (\<lambda>h. RequestError) ''tok'' (\<lambda>u. Inr ''admin'')
       = Inl (HTTPException 503 ''Auth service unavailable'')"
proof -
  have a: "(\<lambda>h. Response 403 None) (''Bearer '' @ ''tok'') = Response 403 None \<and> (403::nat) \<noteq> 200"
    by simp
  have b: "''tok'' \<noteq> [] \<and> (\<lambda>h. RequestError) (''Bearer '' @ ''tok'') = RequestError"
    by simp
  from a get_current_user_fails_closed [of "\<lambda>h. Response 403 None" "''tok''" 403 None "\<lambda>u. Inr ''admin''"]
  have "\<exists>d. protected (\<lambda>h. Response 403 None) ''tok'' (\<lambda>u. Inr ''admin'') = Inl (HTTPException 401 d)"
    by blast
  moreover from b get_current_user_fails_closed [of "\<lambda>h. RequestError" "''tok''" 0 None "\<lambda>u. Inr ''admin''"]
  have "protected (\<lambda>h. RequestError) ''tok'' (\<lambda>u. Inr ''admin'')
       = Inl (HTTPException 503 ''Auth service unavailable'')"
    by blast
  ultimately show ?thesis by blast
qed

section \<open>Lookups in a table\<close>

lemma find_map_same:
  assumes "\<And>x. P (f x) = P x"
  shows "find P (map f xs) = map_option f (find P xs)"
  using assms by (induction xs) simp_all

lemma find_append_cases:
  "find P (xs @ ys) = (case find P xs of None \<Rightarrow> find P ys | Some x \<Rightarrow> Some x)"
  by (induction xs) simp_all

lemma token_hash_revoke [simp]: "token_hash (revoke t row) = token_hash row"
  by (simp add: revoke_def)

lemma revoked_revoke: "revoked row \<Longrightarrow> revoked (revoke t row)"
  by (simp add: revoke_def)

lemma revoke_self: "revoked (revoke t t)"
  by (simp add: revoke_def)

lemma email_set_password [simp]: "email (set_password u h row) = email row"
  by (simp add: set_password_def)

lemma email_set_reset_code [simp]: "email (set_reset_code u h e row) = email row"
  by (simp add: set_reset_code_def)

lemma find_email_set_password:
  "find (\<lambda>u. email u = em) (users d) = Some u \<Longrightarrow>
   find (\<lambda>u. email u = em) (map (set_password u h) (users d))
     = Some (u\<lparr>password := h, reset_code_hash := None, reset_code_expires_at := None\<rparr>)"
  by (simp add: find_map_same) (simp add: set_password_def)

lemma find_email_set_reset_code:
  "find (\<lambda>u. email u = em) (users d) = Some u \<Longrightarrow>
   find (\<lambda>u. email u = em) (map (set_reset_code u h e) (users d))
     = Some (u\<lparr>reset_code_hash := h, reset_code_expires_at := e\<rparr>)"
  by (simp add: find_map_same) (simp add: set_reset_code_def)

section \<open>Running the small instance\<close>

text \<open>The values of the handlers on the requests used below, computed by rewriting.\<close>

lemmas toy_defs = toy_libs_def toy_settings_def toy_jwt_encode_def toy_show_def show_int_def
  digits_of.simps
  create_refresh_token_def create_access_token_def create_token_def refresh_claims_def
  access_claims_def hash_token_def hash_password_def verify_password_def role_or_user_def
  add_refresh_token_def next_id_def at_def Let_def

lemma db_ann_value:
  "db_ann = \<lparr>users =
      [\<lparr>id_U = 1, name = ''Ann'', email = ''a@x.com'', password = ''salt$secret1'',
        role = Some ''user'', reset_code_hash = None, reset_code_expires_at = None\<rparr>],
     refresh_tokens = []\<rparr>"
  by (simp add: db_ann_def register_def empty_db_def toy_defs)

lemma login_ann_value:
  "login toy_libs toy_settings db_ann ''a@x.com'' ''secret1'' (at 1000) =
     (Inr (''k.id=i1.role=suser.type=saccess.exp=i2800'',
           ''k.id=i1.role=suser.type=srefresh.exp=i605800''),
      \<lparr>users =
        [\<lparr>id_U = 1, name = ''Ann'', email = ''a@x.com'', password = ''salt$secret1'',
          role = Some ''user'', reset_code_hash = None, reset_code_expires_at = None\<rparr>],
       refresh_tokens =
        [\<lparr>id_RT = 1, user_id = 1,
          token_hash = ''sha:k.id=i1.role=suser.type=srefresh.exp=i605800'',
          expires_at = 605800, revoked = False, created_at = 1000\<rparr>]\<rparr>)"
  by (simp add: db_ann_value login_def toy_defs)

lemma db_ann_login_value:
  "db_ann_login =
      \<lparr>users =
        [\<lparr>id_U = 1, name = ''Ann'', email = ''a@x.com'', password = ''salt$secret1'',
          role = Some ''user'', reset_code_hash = None, reset_code_expires_at = None\<rparr>],
       refresh_tokens =
        [\<lparr>id_RT = 1, user_id = 1,
          token_hash = ''sha:k.id=i1.role=suser.type=srefresh.exp=i605800'',
          expires_at = 605800, revoked = False, created_at = 1000\<rparr>]\<rparr>"
  by (simp add: db_ann_login_def login_ann_value)

lemma refresh_ann_value:
  "refresh_token toy_libs toy_settings db_ann_login
       ''k.id=i1.role=suser.type=srefresh.exp=i605800'' (at 2000)
     = (Inr (''k.id=i1.role=suser.type=saccess.exp=i3800'',
             ''k.id=i1.role=suser.type=srefresh.exp=i606800''),
        \<lparr>users =
          [\<lparr>id_U = 1, name = ''Ann'', email = ''a@x.com'', password = ''salt$secret1'',
            role = Some ''user'', reset_code_hash = None, reset_code_expires_at = None\<rparr>],
         refresh_tokens =
          [\<lparr>id_RT = 1, user_id = 1,
            token_hash = ''sha:k.id=i1.role=suser.type=srefresh.exp=i605800'',
            expires_at = 605800, revoked = True, created_at = 1000\<rparr>,
           \<lparr>id_RT = 2, user_id = 1,
            token_hash = ''sha:k.id=i1.role=suser.type=srefresh.exp=i606800'',
            expires_at = 606800, revoked = False, created_at = 2000\<rparr>]\<rparr>)"
  by (simp add: db_ann_login_value refresh_token_def revoke_def toy_defs)

lemma toy_decode_abc:
  "jwt_decode toy_libs ''k.id=sabc.role=suser.type=saccess.exp=i2800'' (SECRET_KEY toy_settings) 1500
     = Some [(''id'', JStr ''abc''), (''role'', JStr ''user''), (''type'', JStr ''access''),
             (''exp'', JInt 2800)]"
  by (simp add: toy_libs_def toy_settings_def toy_jwt_decode_def toy_field_def toy_read_def
        py_int_str_def is_py_space_def digit_of_def)


lemma replicate_3: "replicate 3 x = [x, x, x]"
  by (simp add: numeral_3_eq_3)

lemma format_06d_123: "format_06d 123 = ''000123''"
  by (simp add: format_06d_def replicate_3 digits_of.simps)

lemma db_ann_code_value:
  "db_ann_code = \<lparr>users =
      [\<lparr>id_U = 1, name = ''Ann'', email = ''a@x.com'', password = ''salt$secret1'',
        role = Some ''user'', reset_code_hash = Some ''sha:000123'',
        reset_code_expires_at = Some 1900\<rparr>],
     refresh_tokens = []\<rparr>"
  by (simp add: db_ann_code_def db_ann_value forgot_password_def send_email_def set_reset_code_def
        format_06d_123 toy_defs)

section \<open>Rotation of refresh tokens\<close>

text \<open>Once spent, a string stays spent whatever request the service answers next.\<close>

lemma spent_add:
  assumes "spent L tok (d\<lparr>refresh_tokens := rows\<rparr>)"
    and "add_refresh_token d uid h e now rows = Some d'"
  shows "spent L tok d'"
  using assms
  by (auto simp: spent_def add_refresh_token_def find_append_cases split: option.splits if_splits)

lemma login_db:
  "snd (login L S d em pw clk) = d
   \<or> (\<exists>uid h e c. add_refresh_token d uid h e c (refresh_tokens d)
                  = Some (snd (login L S d em pw clk)))"
  by (simp add: login_def Let_def split: option.splits) blast

lemma spent_login: "spent L tok d \<Longrightarrow> spent L tok (snd (login L S d em pw clk))"
  using login_db [of L S d em pw clk]
    spent_add [where L = L and tok = tok and d = d and rows = "refresh_tokens d"]
  by auto

lemma spent_revoke_rows:
  "spent L tok d \<Longrightarrow> spent L tok (d\<lparr>refresh_tokens := map (revoke t) (refresh_tokens d)\<rparr>)"
  by (auto simp: spent_def find_map_same revoked_revoke split: option.splits)

lemma refresh_db:
  "snd (refresh_token L S d tok clk) = d
   \<or> (\<exists>t uid h e c. find (\<lambda>t. token_hash t = hash_token L tok) (refresh_tokens d) = Some t
         \<and> add_refresh_token d uid h e c (map (revoke t) (refresh_tokens d))
             = Some (snd (refresh_token L S d tok clk)))"
  by (simp add: refresh_token_def Let_def split: option.splits) blast

lemma spent_refresh: "spent L tok d \<Longrightarrow> spent L tok (snd (refresh_token L S d tok' clk))"
  using refresh_db [of L S d tok' clk]
    spent_add [where L = L and tok = tok and d = d and rows = "map (revoke t) (refresh_tokens d)" for t]
    spent_revoke_rows [of L tok d]
  by metis

lemma spent_register: "spent L tok d \<Longrightarrow> spent L tok (snd (register L d nm em pw salt))"
  by (auto simp: register_def Let_def spent_def split: option.splits)

lemma spent_forgot:
  "spent L tok d \<Longrightarrow> spent L tok (snd (forgot_password L S http_post d em rnd now))"
  by (auto simp: forgot_password_def Let_def spent_def split: option.splits sum.splits)

lemma spent_reset:
  "spent L tok d \<Longrightarrow> spent L tok (snd (reset_password L d em otp np salt now))"
  by (auto simp: reset_password_def Let_def spent_def split: option.splits)

lemma spent_handle: "spent L tok d \<Longrightarrow> spent L tok (handle L S http_post d rq)"
  by (cases rq)
     (simp_all add: spent_login spent_refresh spent_register spent_forgot spent_reset)

lemma spent_run: "spent L tok d \<Longrightarrow> spent L tok (run L S http_post d reqs)"
  unfolding run_def by (induction reqs arbitrary: d) (simp_all add: spent_handle)

lemma refresh_spends:
  assumes "refresh_token L S d tok clk = (Inr pair, d1)"
  shows "spent L tok d1"
proof -
  from assms obtain t u where
    t: "find (\<lambda>t. token_hash t = hash_token L tok) (refresh_tokens d) = Some t"
    and d1: "add_refresh_token d (id_U u)
        (hash_token L (create_refresh_token L S (id_U u) (role_or_user u) (refresh_at clk)))
        (expiry_at clk + 86400 * REFRESH_TOKEN_EXPIRE_DAYS S) (insert_at clk)
        (map (revoke t) (refresh_tokens d)) = Some d1"
    by (auto simp: refresh_token_def Let_def split: option.splits if_splits)
  have "spent L tok (d\<lparr>refresh_tokens := map (revoke t) (refresh_tokens d)\<rparr>)"
    using t by (simp add: spent_def find_map_same revoke_self)
  then show ?thesis using d1 by (rule spent_add)
qed

lemma spent_refused:
  "spent L tok d \<Longrightarrow>
   refresh_token L S d tok clk = (Inl (HTTPException 401 ''Invalid refresh token''), d)"
  by (auto simp: spent_def refresh_token_def split: option.splits)

text \<open>
  Claim C1. When the refresh endpoint has accepted a string \<open>r1\<close>, then after any further
  list of requests, whatever the clock reads, presenting \<open>r1\<close> again is refused with status 401
  and leaves the database as it is: the record loaded for \<open>r1\<close> is revoked, and no request
  clears the flag or puts another record in front of it.
\<close>

theorem refresh_token_single_use:
  assumes "refresh_token L S d r1 clk = (Inr pair, d1)"
  shows "refresh_token L S (run L S http_post d1 reqs) r1 clk'
           = (Inl (HTTPException 401 ''Invalid refresh token''), run L S http_post d1 reqs)"
  using assms by (intro spent_refused spent_run refresh_spends)

theorem refresh_token_single_use_witness:
  "fst (refresh_token toy_libs toy_settings db_ann_login
          ''k.id=i1.role=suser.type=srefresh.exp=i605800'' (at 2000))
     = Inr (''k.id=i1.role=suser.type=saccess.exp=i3800'',
            ''k.id=i1.role=suser.type=srefresh.exp=i606800'')
   \<and> fst (refresh_token toy_libs toy_settings
        (run toy_libs toy_settings dead_mailer
           (snd (refresh_token toy_libs toy_settings db_ann_login
                   ''k.id=i1.role=suser.type=srefresh.exp=i605800'' (at 2000)))
           [Login ''a@x.com'' ''secret1'' (at 3000), ForgotPassword ''a@x.com'' 7 3100])
        ''k.id=i1.role=suser.type=srefresh.exp=i605800'' (at 4000))
     = Inl (HTTPException 401 ''Invalid refresh token'')"
proof -
  have ok: "refresh_token toy_libs toy_settings db_ann_login
       ''k.id=i1.role=suser.type=srefresh.exp=i605800'' (at 2000)
     = (Inr (''k.id=i1.role=suser.type=saccess.exp=i3800'',
             ''k.id=i1.role=suser.type=srefresh.exp=i606800''),
        snd (refresh_token toy_libs toy_settings db_ann_login
               ''k.id=i1.role=suser.type=srefresh.exp=i605800'' (at 2000)))"
    by (simp add: refresh_ann_value)
  from refresh_token_single_use [OF ok, of dead_mailer
      "[Login ''a@x.com'' ''secret1'' (at 3000), ForgotPassword ''a@x.com'' 7 3100]" "at 4000"]
  have "fst (refresh_token toy_libs toy_settings
        (run toy_libs toy_settings dead_mailer
           (snd (refresh_token toy_libs toy_settings db_ann_login
                   ''k.id=i1.role=suser.type=srefresh.exp=i605800'' (at 2000)))
           [Login ''a@x.com'' ''secret1'' (at 3000), ForgotPassword ''a@x.com'' 7 3100])
        ''k.id=i1.role=suser.type=srefresh.exp=i605800'' (at 4000))
     = Inl (HTTPException 401 ''Invalid refresh token'')"
    by simp
  moreover have "fst (refresh_token toy_libs toy_settings db_ann_login
          ''k.id=i1.role=suser.type=srefresh.exp=i605800'' (at 2000))
     = Inr (''k.id=i1.role=suser.type=saccess.exp=i3800'',
            ''k.id=i1.role=suser.type=srefresh.exp=i606800'')"
    by (simp add: refresh_ann_value)
  ultimately show ?thesis by (intro conjI)
qed






section \<open>The validate endpoint\<close>

text \<open>
  What the validate endpoint does refuse with status 401: a token the decoder rejects (bad
  signature, malformed, expired), a token whose \<open>type\<close> is not \<open>access\<close>, so also every
  refresh token, and a token whose \<open>id\<close> is missing or null. When it accepts, it returns
  the \<open>id\<close> claim as an integer and the \<open>role\<close> claim.
\<close>

lemma validate_token_refusals:
  "(jwt_decode L tok (SECRET_KEY S) now = None \<longrightarrow>
      validate_token L S tok now = Inl (HTTPException 401 ''Invalid or expired token''))
   \<and> (jwt_decode L tok (SECRET_KEY S) now = Some p \<and> dict_get p ''type'' \<noteq> JStr ''access'' \<longrightarrow>
      validate_token L S tok now = Inl (HTTPException 401 ''Invalid token type''))
   \<and> (jwt_decode L tok (SECRET_KEY S) now = Some p \<and> dict_get p ''type'' = JStr ''access''
        \<and> dict_get p ''id'' = JNull \<longrightarrow>
      validate_token L S tok now = Inl (HTTPException 401 ''Token missing user id''))"
  by (simp add: validate_token_def decode_token_def)

lemma validate_token_accepts:
  assumes "validate_token L S tok now = Inr (n, r)"
  shows "\<exists>p. jwt_decode L tok (SECRET_KEY S) now = Some p \<and> dict_get p ''type'' = JStr ''access''
     \<and> py_int (dict_get p ''id'') = Inr n \<and> r = dict_get p ''role''"
  using assms
  by (auto simp: validate_token_def decode_token_def split: option.splits if_splits sum.splits)

text \<open>
  Claim C2. A token that decodes to claims of type \<open>access\<close> whose \<open>id\<close> is the string
  \<open>abc\<close> makes the validate endpoint raise \<open>ValueError\<close>, which leaves the handler uncaught
  (status 500), where \<open>get_current_user_id\<close> answers the same token with status 401.
\<close>

theorem validate_token_non_numeric_id:
  assumes "jwt_decode L tok (SECRET_KEY S) now = Some p"
    and "dict_get p ''type'' = JStr ''access''"
    and "dict_get p ''id'' = JStr ''abc''"
  shows "validate_token L S tok now = Inl (Unhandled ''ValueError'')
       \<and> get_current_user_id L S tok now = Inl (HTTPException 401 ''Invalid user id in token'')"
proof -
  have "py_int_str ''abc'' = None"
    by (simp add: py_int_str_def is_py_space_def digit_of_def)
  then show ?thesis using assms
    by (simp add: validate_token_def get_current_user_id_def decode_token_def)
qed

theorem validate_token_non_numeric_id_witness:
  "validate_token toy_libs toy_settings ''k.id=sabc.role=suser.type=saccess.exp=i2800'' 1500
     = Inl (Unhandled ''ValueError'')
   \<and> get_current_user_id toy_libs toy_settings ''k.id=sabc.role=suser.type=saccess.exp=i2800'' 1500
     = Inl (HTTPException 401 ''Invalid user id in token'')"
  by (rule validate_token_non_numeric_id [OF toy_decode_abc]) (simp_all add: dict_get_def)

section \<open>Login failures\<close>

text \<open>
  Claim C8, as amended. A login with an unknown email and a login with a known email and
  a password that does not verify both fail with status 400 and leave the database as it
  is; the detail is \<open>User not found\<close> in the first case and \<open>Wrong password\<close> in the second.
\<close>

theorem login_failures:
  "(find (\<lambda>u. email u = em) (users d) = None \<longrightarrow>
      login L S d em pw clk = (Inl (HTTPException 400 ''User not found''), d))
   \<and> (find (\<lambda>u. email u = em) (users d) = Some u \<and> \<not> verify_password L pw (password u) \<longrightarrow>
      login L S d em pw clk = (Inl (HTTPException 400 ''Wrong password''), d))"
  by (simp add: login_def)

theorem login_failures_witness:
  "login toy_libs toy_settings empty_db ''a@x.com'' ''secret1'' (at 1000)
      = (Inl (HTTPException 400 ''User not found''), empty_db)
   \<and> login toy_libs toy_settings db_ann ''a@x.com'' ''secret9'' (at 1000)
      = (Inl (HTTPException 400 ''Wrong password''), db_ann)"
proof -
  let ?u = "\<lparr>id_U = 1, name = ''Ann'', email = ''a@x.com'', password = ''salt$secret1'',
          role = Some ''user'', reset_code_hash = None, reset_code_expires_at = None\<rparr>"
  have a: "find (\<lambda>u. email u = ''a@x.com'') (users empty_db) = None"
    by (simp add: empty_db_def)
  have b: "find (\<lambda>u. email u = ''a@x.com'') (users db_ann) = Some ?u
      \<and> \<not> verify_password toy_libs ''secret9'' (password ?u)"
    by (simp add: db_ann_value verify_password_def toy_libs_def)
  from a login_failures [of "''a@x.com''" empty_db toy_libs toy_settings "''secret1''" "at 1000"]
  have "login toy_libs toy_settings empty_db ''a@x.com'' ''secret1'' (at 1000)
      = (Inl (HTTPException 400 ''User not found''), empty_db)"
    by blast
  moreover from b login_failures [of "''a@x.com''" db_ann toy_libs toy_settings "''secret9''" "at 1000" ?u]
  have "login toy_libs toy_settings db_ann ''a@x.com'' ''secret9'' (at 1000)
      = (Inl (HTTPException 400 ''Wrong password''), db_ann)"
    by blast
  ultimately show ?thesis by (rule conjI)
qed

text \<open>
  Claim C8 as stated fails: the two failing logins are answered with different details.
\<close>

theorem login_details_differ:
  "fst (login toy_libs toy_settings empty_db ''a@x.com'' ''secret1'' (at 1000))
      = Inl (HTTPException 400 ''User not found'')
   \<and> fst (login toy_libs toy_settings db_ann ''a@x.com'' ''secret9'' (at 1000))
      = Inl (HTTPException 400 ''Wrong password'')"
  by (simp add: login_def empty_db_def db_ann_value verify_password_def toy_libs_def)

section \<open>Password reset\<close>

lemma reset_password_ok:
  assumes "find (\<lambda>u. email u = em) (users d) = Some u"
    and "reset_code_hash u = Some (hash_token L otp)" and "hash_token L otp \<noteq> []"
    and "reset_code_expires_at u = Some expires" and "\<not> expires < now"
  shows "reset_password L d em otp np salt now
     = (Inr ''Password updated'',
        d\<lparr>users := map (set_password u (hash_password L np salt)) (users d)\<rparr>)"
  using assms by (simp add: reset_password_def)

lemma reset_password_no_code:
  assumes "find (\<lambda>u. email u = em) (users d) = Some u" and "reset_code_hash u = None"
  shows "reset_password L d em otp np salt now = (Inl (HTTPException 400 ''OTP not requested''), d)"
  using assms by (simp add: reset_password_def)

text \<open>
  Claim C6. When the user found for the email stores the digest of the supplied code and an
  expiry that is not before the clock, the reset succeeds; afterwards that user's row holds
  the hash of the new password and neither a code digest nor a code expiry, and every
  further reset with the same code fails with status 400, at any time and for any new
  password. (The digest of a code is never the empty string, as for SHA-256 in hex.)
\<close>

theorem reset_password_single_use:
  assumes "find (\<lambda>u. email u = em) (users d) = Some u"
    and "reset_code_hash u = Some (hash_token L otp)" and "hash_token L otp \<noteq> []"
    and "reset_code_expires_at u = Some expires" and "\<not> expires < now"
  shows "\<exists>d'. reset_password L d em otp np salt now = (Inr ''Password updated'', d')
     \<and> find (\<lambda>u. email u = em) (users d')
         = Some (u\<lparr>password := hash_password L np salt, reset_code_hash := None,
                   reset_code_expires_at := None\<rparr>)
     \<and> (\<forall>np' salt' now'. reset_password L d' em otp np' salt' now'
            = (Inl (HTTPException 400 ''OTP not requested''), d'))"
proof -
  let ?h = "hash_password L np salt"
  let ?d' = "d\<lparr>users := map (set_password u ?h) (users d)\<rparr>"
  let ?u' = "u\<lparr>password := ?h, reset_code_hash := None, reset_code_expires_at := None\<rparr>"
  have ok: "reset_password L d em otp np salt now = (Inr ''Password updated'', ?d')"
    using assms by (rule reset_password_ok)
  have found: "find (\<lambda>u. email u = em) (users ?d') = Some ?u'"
    using assms(1) by (simp add: find_email_set_password)
  have "reset_password L ?d' em otp np' salt' now' = (Inl (HTTPException 400 ''OTP not requested''), ?d')"
    for np' salt' now'
    by (rule reset_password_no_code [OF found]) simp
  with ok found show ?thesis by blast
qed

theorem reset_password_single_use_witness:
  "\<exists>d'. reset_password toy_libs db_ann_code ''a@x.com'' ''000123'' ''secret2'' ''pepper'' 1500
           = (Inr ''Password updated'', d')
     \<and> find (\<lambda>u. email u = ''a@x.com'') (users d')
         = Some \<lparr>id_U = 1, name = ''Ann'', email = ''a@x.com'', password = ''pepper$secret2'',
                  role = Some ''user'', reset_code_hash = None, reset_code_expires_at = None\<rparr>
     \<and> (\<forall>np' salt' now'. reset_password toy_libs d' ''a@x.com'' ''000123'' np' salt' now'
            = (Inl (HTTPException 400 ''OTP not requested''), d'))"
proof -
  let ?u = "\<lparr>id_U = 1, name = ''Ann'', email = ''a@x.com'', password = ''salt$secret1'',
        role = Some ''user'', reset_code_hash = Some ''sha:000123'',
        reset_code_expires_at = Some 1900\<rparr>"
  have 1: "find (\<lambda>u. email u = ''a@x.com'') (users db_ann_code) = Some ?u"
    by (simp add: db_ann_code_value)
  have 2: "reset_code_hash ?u = Some (hash_token toy_libs ''000123'')"
    by (simp add: hash_token_def toy_libs_def)
  have 3: "hash_token toy_libs ''000123'' \<noteq> []"
    by (simp add: hash_token_def toy_libs_def)
  have 4: "reset_code_expires_at ?u = Some 1900"
    by simp
  have 5: "\<not> (1900::int) < 1500"
    by simp
  from reset_password_single_use [OF 1 2 3 4 5, of "''secret2''" "''pepper''"]
  show ?thesis by (simp add: hash_password_def toy_libs_def)
qed

text \<open>
  Claim C7, as amended. Every failing reset fails with status 400 and leaves the database
  as it is, and its detail names the cause: \<open>Invalid email or OTP\<close> when no user has the
  email, \<open>OTP not requested\<close> when the user found stores no code digest (or an empty one)
  or no code expiry, \<open>OTP expired\<close> when the stored expiry lies before the clock, and
  \<open>Invalid OTP\<close> when the digest of the supplied code is not the stored one. A reset that
  fails has one of these four causes.
\<close>

theorem reset_password_failures:
  "(find (\<lambda>u. email u = em) (users d) = None \<longrightarrow>
      reset_password L d em otp np salt now
        = (Inl (HTTPException 400 ''Invalid email or OTP''), d))
   \<and> (find (\<lambda>u. email u = em) (users d) = Some u
        \<and> (reset_code_hash u = None \<or> reset_code_hash u = Some [] \<or> reset_code_expires_at u = None) \<longrightarrow>
      reset_password L d em otp np salt now
        = (Inl (HTTPException 400 ''OTP not requested''), d))
   \<and> (find (\<lambda>u. email u = em) (users d) = Some u
        \<and> reset_code_hash u = Some h \<and> h \<noteq> [] \<and> reset_code_expires_at u = Some e \<and> e < now \<longrightarrow>
      reset_password L d em otp np salt now
        = (Inl (HTTPException 400 ''OTP expired''), d))
   \<and> (find (\<lambda>u. email u = em) (users d) = Some u
        \<and> reset_code_hash u = Some h \<and> h \<noteq> [] \<and> reset_code_expires_at u = Some e \<and> \<not> e < now
        \<and> hash_token L otp \<noteq> h \<longrightarrow>
      reset_password L d em otp np salt now
        = (Inl (HTTPException 400 ''Invalid OTP''), d))
   \<and> (fst (reset_password L d em otp np salt now) = Inl err \<longrightarrow>
      status_of err = 400
      \<and> detail_of err \<in> set [''Invalid email or OTP'', ''OTP not requested'', ''OTP expired'', ''Invalid OTP'']
      \<and> snd (reset_password L d em otp np salt now) = d)"
proof (intro conjI impI)
  assume "fst (reset_password L d em otp np salt now) = Inl err"
  then show "status_of err = 400"
    and "detail_of err \<in> set [''Invalid email or OTP'', ''OTP not requested'', ''OTP expired'', ''Invalid OTP'']"
    and "snd (reset_password L d em otp np salt now) = d"
    by (auto simp: reset_password_def split: option.splits if_splits)
qed (auto simp: reset_password_def split: option.splits)

theorem reset_password_failures_witness:
  "reset_password toy_libs empty_db ''a@x.com'' ''000123'' ''secret2'' ''pepper'' 1500
      = (Inl (HTTPException 400 ''Invalid email or OTP''), empty_db)
   \<and> reset_password toy_libs db_ann ''a@x.com'' ''000123'' ''secret2'' ''pepper'' 1500
      = (Inl (HTTPException 400 ''OTP not requested''), db_ann)
   \<and> reset_password toy_libs db_ann_code ''a@x.com'' ''000123'' ''secret2'' ''pepper'' 2000
      = (Inl (HTTPException 400 ''OTP expired''), db_ann_code)
   \<and> reset_password toy_libs db_ann_code ''a@x.com'' ''999999'' ''secret2'' ''pepper'' 1500
      = (Inl (HTTPException 400 ''Invalid OTP''), db_ann_code)
   \<and> status_of (HTTPException 400 ''OTP expired'') = 400
   \<and> snd (reset_password toy_libs db_ann_code ''a@x.com'' ''000123'' ''secret2'' ''pepper'' 2000)
      = db_ann_code"
proof -
  let ?u = "\<lparr>id_U = 1, name = ''Ann'', email = ''a@x.com'', password = ''salt$secret1'',
          role = Some ''user'', reset_code_hash = None, reset_code_expires_at = None\<rparr>"
  let ?c = "\<lparr>id_U = 1, name = ''Ann'', email = ''a@x.com'', password = ''salt$secret1'',
          role = Some ''user'', reset_code_hash = Some ''sha:000123'',
          reset_code_expires_at = Some 1900\<rparr>"
  have 1: "find (\<lambda>u. email u = ''a@x.com'') (users empty_db) = None"
    by (simp add: empty_db_def)
  have 2: "find (\<lambda>u. email u = ''a@x.com'') (users db_ann) = Some ?u
      \<and> (reset_code_hash ?u = None \<or> reset_code_hash ?u = Some [] \<or> reset_code_expires_at ?u = None)"
    by (simp add: db_ann_value)
  have 3: "find (\<lambda>u. email u = ''a@x.com'') (users db_ann_code) = Some ?c
      \<and> reset_code_hash ?c = Some ''sha:000123'' \<and> ''sha:000123'' \<noteq> []
      \<and> reset_code_expires_at ?c = Some 1900 \<and> (1900::int) < 2000"
    by (simp add: db_ann_code_value)
  have 4: "find (\<lambda>u. email u = ''a@x.com'') (users db_ann_code) = Some ?c
      \<and> reset_code_hash ?c = Some ''sha:000123'' \<and> ''sha:000123'' \<noteq> []
      \<and> reset_code_expires_at ?c = Some 1900 \<and> \<not> (1900::int) < 1500
      \<and> hash_token toy_libs ''999999'' \<noteq> ''sha:000123''"
    by (simp add: db_ann_code_value hash_token_def toy_libs_def)
  have 5: "fst (reset_password toy_libs db_ann_code ''a@x.com'' ''000123'' ''secret2'' ''pepper'' 2000)
      = Inl (HTTPException 400 ''OTP expired'')"
    by (simp add: reset_password_def db_ann_code_value hash_token_def toy_libs_def)
  from 1 reset_password_failures [of "''a@x.com''" empty_db toy_libs "''000123''" "''secret2''"
      "''pepper''" 1500]
  have a: "reset_password toy_libs empty_db ''a@x.com'' ''000123'' ''secret2'' ''pepper'' 1500
      = (Inl (HTTPException 400 ''Invalid email or OTP''), empty_db)"
    by blast
  from 2 reset_password_failures [of "''a@x.com''" db_ann toy_libs "''000123''" "''secret2''"
      "''pepper''" 1500 ?u]
  have b: "reset_password toy_libs db_ann ''a@x.com'' ''000123'' ''secret2'' ''pepper'' 1500
      = (Inl (HTTPException 400 ''OTP not requested''), db_ann)"
    by blast
  from 3 reset_password_failures [of "''a@x.com''" db_ann_code toy_libs "''000123''" "''secret2''"
      "''pepper''" 2000 ?c "''sha:000123''" 1900]
  have c: "reset_password toy_libs db_ann_code ''a@x.com'' ''000123'' ''secret2'' ''pepper'' 2000
      = (Inl (HTTPException 400 ''OTP expired''), db_ann_code)"
    by blast
  from 4 reset_password_failures [of "''a@x.com''" db_ann_code toy_libs "''999999''" "''secret2''"
      "''pepper''" 1500 ?c "''sha:000123''" 1900]
  have d: "reset_password toy_libs db_ann_code ''a@x.com'' ''999999'' ''secret2'' ''pepper'' 1500
      = (Inl (HTTPException 400 ''Invalid OTP''), db_ann_code)"
    by blast
  from 5 reset_password_failures [of "''a@x.com''" db_ann_code toy_libs "''000123''" "''secret2''"
      "''pepper''" 2000 _ _ _ "HTTPException 400 ''OTP expired''"]
  have e: "status_of (HTTPException 400 ''OTP expired'') = 400
      \<and> snd (reset_password toy_libs db_ann_code ''a@x.com'' ''000123'' ''secret2'' ''pepper'' 2000)
         = db_ann_code"
    by blast
  from a b c d e show ?thesis by (intro conjI) simp_all
qed

text \<open>
  Claim C7 as stated fails: the four causes of a failing reset are answered with four
  different details.
\<close>

theorem reset_password_details_differ:
  "fst (reset_password toy_libs empty_db ''a@x.com'' ''000123'' ''secret2'' ''pepper'' 1500)
      = Inl (HTTPException 400 ''Invalid email or OTP'')
   \<and> fst (reset_password toy_libs db_ann ''a@x.com'' ''000123'' ''secret2'' ''pepper'' 1500)
      = Inl (HTTPException 400 ''OTP not requested'')
   \<and> fst (reset_password toy_libs db_ann_code ''a@x.com'' ''000123'' ''secret2'' ''pepper'' 2000)
      = Inl (HTTPException 400 ''OTP expired'')
   \<and> fst (reset_password toy_libs db_ann_code ''a@x.com'' ''999999'' ''secret2'' ''pepper'' 1500)
      = Inl (HTTPException 400 ''Invalid OTP'')"
  by (simp add: reset_password_def empty_db_def db_ann_value db_ann_code_value hash_token_def toy_libs_def)

lemma send_email_error:
  "send_email S http_post to_email subject body = Inl e \<Longrightarrow> status_of e = 502"
  by (auto simp: send_email_def split: option.splits http_outcome.splits if_splits)

text \<open>
  Claim C10. When the email is registered and the delivery of the mail fails, the
  forgot-password endpoint answers with that delivery error (status 502), and the database
  it leaves behind nevertheless stores, on the user's row, the digest of the new code and
  an expiry 15 minutes ahead; a reset with the new code up to that expiry then succeeds.
  (The digest of a code is never the empty string, as for SHA-256 in hex.)
\<close>

theorem forgot_password_commits_before_mail:
  assumes "find (\<lambda>u. email u = em) (users d) = Some u"
    and "send_email S http_post em ''Your password reset code''
           (''Your OTP code is '' @ format_06d rnd @ ''. It expires in 15 minutes.'') = Inl e"
    and "hash_token L (format_06d rnd) \<noteq> []"
    and "now' \<le> now + 900"
  shows "\<exists>d'. forgot_password L S http_post d em rnd now = (Inl e, d') \<and> status_of e = 502
     \<and> find (\<lambda>u. email u = em) (users d')
         = Some (u\<lparr>reset_code_hash := Some (hash_token L (format_06d rnd)),
                   reset_code_expires_at := Some (now + 900)\<rparr>)
     \<and> fst (reset_password L d' em (format_06d rnd) np salt now') = Inr ''Password updated''"
proof -
  let ?h = "hash_token L (format_06d rnd)"
  let ?d' = "d\<lparr>users := map (set_reset_code u (Some ?h) (Some (now + 900))) (users d)\<rparr>"
  let ?u' = "u\<lparr>reset_code_hash := Some ?h, reset_code_expires_at := Some (now + 900)\<rparr>"
  have run: "forgot_password L S http_post d em rnd now = (Inl e, ?d')"
    using assms(1,2) by (simp add: forgot_password_def Let_def)
  have found: "find (\<lambda>u. email u = em) (users ?d') = Some ?u'"
    using assms(1) by (simp add: find_email_set_reset_code)
  have "reset_password L ?d' em (format_06d rnd) np salt now'
          = (Inr ''Password updated'',
             ?d'\<lparr>users := map (set_password ?u' (hash_password L np salt)) (users ?d')\<rparr>)"
    using assms(3,4) by (intro reset_password_ok [OF found, where expires = "now + 900"]) simp_all
  then have "fst (reset_password L ?d' em (format_06d rnd) np salt now') = Inr ''Password updated''"
    by simp
  with run found send_email_error [OF assms(2)] show ?thesis by blast
qed

theorem forgot_password_commits_before_mail_witness:
  "\<exists>d'. forgot_password toy_libs mail_settings dead_mailer db_ann ''a@x.com'' 123 1000
           = (Inl (HTTPException 502 ''Email service communication error''), d')
     \<and> find (\<lambda>u. email u = ''a@x.com'') (users d')
         = Some \<lparr>id_U = 1, name = ''Ann'', email = ''a@x.com'', password = ''salt$secret1'',
                  role = Some ''user'', reset_code_hash = Some ''sha:000123'',
                  reset_code_expires_at = Some 1900\<rparr>
     \<and> fst (reset_password toy_libs d' ''a@x.com'' ''000123'' ''secret2'' ''pepper'' 1500)
         = Inr ''Password updated''"
proof -
  let ?u = "\<lparr>id_U = 1, name = ''Ann'', email = ''a@x.com'', password = ''salt$secret1'',
          role = Some ''user'', reset_code_hash = None, reset_code_expires_at = None\<rparr>"
  have 1: "find (\<lambda>u. email u = ''a@x.com'') (users db_ann) = Some ?u"
    by (simp add: db_ann_value)
  have 2: "send_email mail_settings dead_mailer ''a@x.com'' ''Your password reset code''
           (''Your OTP code is '' @ format_06d 123 @ ''. It expires in 15 minutes.'')
         = Inl (HTTPException 502 ''Email service communication error'')"
    by (simp add: send_email_def mail_settings_def toy_settings_def dead_mailer_def)
  have 3: "hash_token toy_libs (format_06d 123) \<noteq> []"
    by (simp add: hash_token_def toy_libs_def)
  have 4: "(1500::int) \<le> 1000 + 900"
    by simp
  from forgot_password_commits_before_mail [OF 1 2 3 4, of "''secret2''" "''pepper''"]
  show ?thesis by (simp add: format_06d_123 hash_token_def toy_libs_def)
qed

section \<open>Register, then login, then validate\<close>

lemma register_ok:
  assumes "register L d nm em pw salt = (Inr u, d1)"
  shows "find (\<lambda>u. email u = em) (users d) = None
     \<and> u = \<lparr>id_U = next_id (map id_U (users d)), name = nm, email = em,
            password = hash_password L pw salt, role = Some ''user'',
            reset_code_hash = None, reset_code_expires_at = None\<rparr>
     \<and> d1 = d\<lparr>users := users d @ [u]\<rparr>"
  using assms by (auto simp: register_def Let_def split: option.splits)

lemma validate_access_claims:
  assumes "jwt_decode L tok (SECRET_KEY S) now'
             = Some (dict_update ''exp'' (JInt e) (access_claims uid r))"
  shows "validate_token L S tok now' = Inr (uid, JStr r)"
  using assms
  by (simp add: validate_token_def decode_token_def access_claims_def dict_get_def)

text \<open>
  The first login after a registration. When the password hash verifies against the
  password it was made from, the digest of the refresh token minted for the login is not
  yet in the ledger, and the decoder returns at the time of validation the claims encoded
  into the access token, the login succeeds and validation gives the id of the registered
  user and the role \<open>user\<close>.
\<close>

lemma register_login_validate:
  assumes verify: "pwd_verify L pw (pwd_hash L pw salt)"
    and reg: "register L d nm em pw salt = (Inr u, d1)"
    and fresh: "hash_token L (create_refresh_token L S (id_U u) ''user'' (refresh_at clk))
        \<notin> set (map token_hash (refresh_tokens d1))"
    and dec: "jwt_decode L (create_access_token L S (id_U u) ''user'' (access_at clk))
          (SECRET_KEY S) now'
        = Some (dict_update ''exp'' (JInt (access_at clk + 60 * ACCESS_TOKEN_EXPIRE_MINUTES S))
                  (access_claims (id_U u) ''user''))"
  shows "\<exists>access refresh d2. login L S d1 em pw clk = (Inr (access, refresh), d2)
     \<and> validate_token L S access now' = Inr (id_U u, JStr ''user'')"
proof -
  let ?h = "hash_token L (create_refresh_token L S (id_U u) ''user'' (refresh_at clk))"
  from register_ok [OF reg] have
    none: "find (\<lambda>u. email u = em) (users d) = None"
    and u: "u = \<lparr>id_U = next_id (map id_U (users d)), name = nm, email = em,
            password = hash_password L pw salt, role = Some ''user'',
            reset_code_hash = None, reset_code_expires_at = None\<rparr>"
    and d1: "d1 = d\<lparr>users := users d @ [u]\<rparr>"
    by blast+
  have em: "email u = em" and pw: "password u = hash_password L pw salt"
    and r: "role_or_user u = ''user''"
    by (simp_all add: u role_or_user_def)
  have found: "find (\<lambda>u. email u = em) (users d1) = Some u"
    by (simp add: d1 find_append_cases none em)
  from fresh obtain d2 where add: "add_refresh_token d1 (id_U u) ?h
        (expiry_at clk + 86400 * REFRESH_TOKEN_EXPIRE_DAYS S) (insert_at clk) (refresh_tokens d1)
      = Some d2"
    by (simp add: add_refresh_token_def)
  have "login L S d1 em pw clk
      = (Inr (create_access_token L S (id_U u) ''user'' (access_at clk),
              create_refresh_token L S (id_U u) ''user'' (refresh_at clk)), d2)"
    using verify
    by (simp add: login_def found pw r add verify_password_def hash_password_def Let_def)
  moreover have "validate_token L S (create_access_token L S (id_U u) ''user'' (access_at clk)) now'
      = Inr (id_U u, JStr ''user'')"
    using dec by (rule validate_access_claims)
  ultimately show ?thesis by blast
qed

text \<open>Ann registers in the empty database, logs in at 1000 and validates at 1500.\<close>

lemma register_login_validate_ann:
  "\<exists>access refresh d2.
      login toy_libs toy_settings db_ann ''a@x.com'' ''secret1'' (at 1000)
        = (Inr (access, refresh), d2)
    \<and> validate_token toy_libs toy_settings access 1500 = Inr (1, JStr ''user'')"
proof -
  let ?u = "\<lparr>id_U = 1, name = ''Ann'', email = ''a@x.com'', password = ''salt$secret1'',
          role = Some ''user'', reset_code_hash = None, reset_code_expires_at = None\<rparr>"
  have verify: "pwd_verify toy_libs ''secret1'' (pwd_hash toy_libs ''secret1'' ''salt'')"
    by (simp add: toy_libs_def)
  have reg: "register toy_libs empty_db ''Ann'' ''a@x.com'' ''secret1'' ''salt'' = (Inr ?u, db_ann)"
    by (simp add: db_ann_value) (simp add: register_def empty_db_def toy_defs)
  have fresh: "hash_token toy_libs
        (create_refresh_token toy_libs toy_settings (id_U ?u) ''user'' (refresh_at (at 1000)))
      \<notin> set (map token_hash (refresh_tokens db_ann))"
    by (simp add: db_ann_value)
  have dec: "jwt_decode toy_libs
        (create_access_token toy_libs toy_settings (id_U ?u) ''user'' (access_at (at 1000)))
        (SECRET_KEY toy_settings) 1500
      = Some (dict_update ''exp''
                (JInt (access_at (at 1000) + 60 * ACCESS_TOKEN_EXPIRE_MINUTES toy_settings))
                (access_claims (id_U ?u) ''user''))"
    by (simp add: toy_defs access_claims_def toy_jwt_decode_def toy_field_def toy_read_def
          py_int_str_def is_py_space_def digit_of_def)
  from register_login_validate [OF verify reg fresh dec] show ?thesis by simp
qed

lemma login_ok:
  assumes "login L S d em pw clk = (Inr pair, d1)"
  shows "\<exists>u. find (\<lambda>u. email u = em) (users d) = Some u
     \<and> verify_password L pw (password u)
     \<and> add_refresh_token d (id_U u)
          (hash_token L (create_refresh_token L S (id_U u) (role_or_user u) (refresh_at clk)))
          (expiry_at clk + 86400 * REFRESH_TOKEN_EXPIRE_DAYS S) (insert_at clk) (refresh_tokens d)
        = Some d1"
  using assms by (auto simp: login_def Let_def split: option.splits if_splits)

text \<open>
  Claim C5. A login that succeeds, followed by a second login with the same email and
  password for which \<open>_create_token\<close> reads the same second for the refresh token, does not
  succeed: the second login mints the same refresh token, whose digest is already in the
  ledger, and the commit raises \<open>IntegrityError\<close>, which leaves the handler uncaught (status
  500) and the database as it was. This holds for every digest and every token format.
\<close>

theorem login_twice_same_second:
  assumes "login L S d em pw clk = (Inr pair, d1)"
    and "refresh_at clk' = refresh_at clk"
  shows "login L S d1 em pw clk' = (Inl (Unhandled ''IntegrityError''), d1)"
proof -
  from login_ok [OF assms(1)] obtain u where
    u: "find (\<lambda>u. email u = em) (users d) = Some u"
    and v: "verify_password L pw (password u)"
    and add: "add_refresh_token d (id_U u)
          (hash_token L (create_refresh_token L S (id_U u) (role_or_user u) (refresh_at clk)))
          (expiry_at clk + 86400 * REFRESH_TOKEN_EXPIRE_DAYS S) (insert_at clk) (refresh_tokens d)
        = Some d1"
    by blast
  from add have users: "users d1 = users d"
    and held: "hash_token L (create_refresh_token L S (id_U u) (role_or_user u) (refresh_at clk))
        \<in> set (map token_hash (refresh_tokens d1))"
    by (auto simp: add_refresh_token_def split: if_splits)
  from held have "add_refresh_token d1 (id_U u)
          (hash_token L (create_refresh_token L S (id_U u) (role_or_user u) (refresh_at clk)))
          e c (refresh_tokens d1) = None" for e c
    by (simp add: add_refresh_token_def)
  then show ?thesis using u v
    by (simp add: login_def users assms(2) Let_def)
qed

theorem login_twice_same_second_witness:
  "fst (login toy_libs toy_settings db_ann ''a@x.com'' ''secret1'' (at 1000))
     = Inr (''k.id=i1.role=suser.type=saccess.exp=i2800'',
            ''k.id=i1.role=suser.type=srefresh.exp=i605800'')
   \<and> login toy_libs toy_settings db_ann_login ''a@x.com'' ''secret1'' (at 1000)
     = (Inl (Unhandled ''IntegrityError''), db_ann_login)"
proof -
  have first: "login toy_libs toy_settings db_ann ''a@x.com'' ''secret1'' (at 1000)
     = (Inr (''k.id=i1.role=suser.type=saccess.exp=i2800'',
             ''k.id=i1.role=suser.type=srefresh.exp=i605800''), db_ann_login)"
    by (simp add: login_ann_value db_ann_login_value)
  have same: "refresh_at (at 1000) = refresh_at (at 1000)"
    by simp
  from login_twice_same_second [OF first same]
  have "login toy_libs toy_settings db_ann_login ''a@x.com'' ''secret1'' (at 1000)
     = (Inl (Unhandled ''IntegrityError''), db_ann_login)" .
  moreover from first
  have "fst (login toy_libs toy_settings db_ann ''a@x.com'' ''secret1'' (at 1000))
     = Inr (''k.id=i1.role=suser.type=saccess.exp=i2800'',
            ''k.id=i1.role=suser.type=srefresh.exp=i605800'')"
    by simp
  ultimately show ?thesis by (intro conjI)
qed

end
